theory Spec2Isabelle
  imports Main "HOL-Library.Sublist"
begin

section \<open>The user-input components of \<^verbatim>\<open>click-me.component.ts\<close>\<close>

text \<open>
  The source is a set of small Angular components.  Each class holds one field and one
  handler method that the template binds to a DOM event.  A component instance is a
  record of its fields; a handler takes the instance (the receiver \<open>this\<close>) and returns
  the instance as the method leaves it.  JavaScript strings are modelled as \<open>string\<close>:
  the handlers only concatenate strings and test them for emptiness, they never look at
  a single code unit.
\<close>

subsection \<open>ClickMeComponent\<close>

text \<open>
  \<^verbatim>\<open>
  export class ClickMeComponent {
    clickMessage = '';
    onClickMe() { this.clickMessage = 'You are my hero!'; }
  }
  \<close>
\<close>

record ClickMeComponent =
  clickMessage :: string

definition ClickMeComponent_new :: ClickMeComponent where
  "ClickMeComponent_new = \<lparr>clickMessage = ''''\<rparr>"

definition onClickMe :: "ClickMeComponent \<Rightarrow> ClickMeComponent" where
  "onClickMe this = this\<lparr>clickMessage := ''You are my hero!''\<rparr>"

subsection \<open>KeyUpComponent_v1: the handler receives the DOM event\<close>

text \<open>
  \<^verbatim>\<open>
  export class KeyUpComponent_v1 {
    values = '';
    onKey(event: any) {            // without type info
      this.values += event.target.value + ' | ';
    }
    onKey(event: KeyboardEvent) {  // with type info
      this.values += (event.target as HTMLInputElement).value + ' | ';
    }
  }
  \<close>
  The event is given the shape of the typed variant: an object whose \<open>target\<close> is an
  input element or \<open>null\<close> (the DOM type of \<open>Event.target\<close> is nullable; the cast in
  the typed variant does not check it).  Reading \<open>.value\<close> of a \<open>null\<close> target raises
  a \<open>TypeError\<close>; the read happens before the assignment, so nothing is written then.
\<close>

record HTMLInputElement =
  "value" :: string

record KeyboardEvent =
  target :: "HTMLInputElement option"

datatype error = TypeError

record KeyUpComponent_v1 =
  "values" :: string

definition KeyUpComponent_v1_new :: KeyUpComponent_v1 where
  "KeyUpComponent_v1_new = \<lparr>KeyUpComponent_v1.values = ''''\<rparr>"

definition KeyUpComponent_v1_onKey ::
  "KeyboardEvent \<Rightarrow> KeyUpComponent_v1 \<Rightarrow> error + KeyUpComponent_v1" where
  "KeyUpComponent_v1_onKey event this =
     (case target event of
        None \<Rightarrow> Inl TypeError
      | Some el \<Rightarrow>
          Inr (this\<lparr>KeyUpComponent_v1.values :=
                 KeyUpComponent_v1.values this @ (HTMLInputElement.value el @ '' | '')\<rparr>))"

text \<open>The event that a keyup on the input box delivers when the box holds \<open>content\<close>.\<close>

definition keyup_event :: "string \<Rightarrow> KeyboardEvent" where
  "keyup_event content = \<lparr>target = Some \<lparr>HTMLInputElement.value = content\<rparr>\<rparr>"

subsection \<open>KeyUpComponent_v2: the handler receives the box content\<close>

text \<open>
  \<^verbatim>\<open>
  export class KeyUpComponent_v2 {
    values = '';
    onKey(value: string) { this.values += value + ' | '; }
  }
  \<close>
\<close>

record KeyUpComponent_v2 =
  "values" :: string

definition KeyUpComponent_v2_new :: KeyUpComponent_v2 where
  "KeyUpComponent_v2_new = \<lparr>KeyUpComponent_v2.values = ''''\<rparr>"

definition KeyUpComponent_v2_onKey :: "string \<Rightarrow> KeyUpComponent_v2 \<Rightarrow> KeyUpComponent_v2" where
  "KeyUpComponent_v2_onKey v this =
     this\<lparr>KeyUpComponent_v2.values := KeyUpComponent_v2.values this @ (v @ '' | '')\<rparr>"

subsection \<open>Events on the input box, as the templates bind them\<close>

text \<open>
  Modelled from the spec: the framework's matching of a keystroke against the
  \<open>keyup.enter\<close> binding, which is not under \<open>src/\<close>.  The specification: "only commit
  the value when the key is the commit key; all other keystrokes are ignored (no state
  change, no error)", with the commit key "the designated key (Enter)", and the framework
  "invokes the named handler synchronously when the bound DOM-level event fires".  A keyup
  on the box is therefore either the commit keystroke \<open>KeyUpEnter\<close>, the one for which
  the \<open>keyup.enter\<close> binding fires, or another keystroke \<open>KeyUpOther\<close>, given with the
  name of its key, for which that binding does not fire.  How the framework tells the two
  apart is not modelled.  \<open>Blur\<close> is the loss of focus.
\<close>

datatype input_event = KeyUpEnter | KeyUpOther string | Blur

text \<open>
  The templates of the next two components bind handlers to events of one input box
  \<open>#box\<close>.  A template function takes the event, the content of the box at that
  moment (\<open>box.value\<close>) and the component; it runs the statement of the binding that
  fires, and nothing when no binding does.
\<close>

subsection \<open>KeyUpComponent_v3: commit on Enter\<close>

text \<open>
  \<^verbatim>\<open>
  template: `<input #box (keyup.enter)="onEnter(box.value)"> <p>{{value}}</p>`
  export class KeyUpComponent_v3 {
    value = '';
    onEnter(value: string) { this.value = value; }
  }
  \<close>
\<close>

record KeyUpComponent_v3 =
  "value" :: string

definition KeyUpComponent_v3_new :: KeyUpComponent_v3 where
  "KeyUpComponent_v3_new = \<lparr>KeyUpComponent_v3.value = ''''\<rparr>"

definition onEnter :: "string \<Rightarrow> KeyUpComponent_v3 \<Rightarrow> KeyUpComponent_v3" where
  "onEnter v this = this\<lparr>KeyUpComponent_v3.value := v\<rparr>"

text \<open>
  The one binding is \<open>(keyup.enter)="onEnter(box.value)"\<close>.  The outcome of an event is
  a result value, \<open>Inr\<close> the component when the statement returns or when no statement
  runs.  The statement reads \<open>box.value\<close>, where the template variable \<open>box\<close> is the
  input element itself, and calls \<open>onEnter\<close>, an assignment; neither can raise, so no
  equation yields \<open>Inl\<close>.
\<close>

fun KeyUpComponent_v3_template ::
  "input_event \<Rightarrow> string \<Rightarrow> KeyUpComponent_v3 \<Rightarrow> error + KeyUpComponent_v3" where
  "KeyUpComponent_v3_template KeyUpEnter box this = Inr (onEnter box this)"
| "KeyUpComponent_v3_template (KeyUpOther k) box this = Inr this"
| "KeyUpComponent_v3_template Blur box this = Inr this"

subsection \<open>KeyUpComponent_v4: commit on Enter and on blur\<close>

text \<open>
  \<^verbatim>\<open>
  template: `<input #box (keyup.enter)="update(box.value)" (blur)="update(box.value)">
             <p>{{value}}</p>`
  export class KeyUpComponent_v4 {
    value = '';
    update(value: string) { this.value = value; }
  }
  \<close>
\<close>

record KeyUpComponent_v4 =
  "value" :: string

definition KeyUpComponent_v4_new :: KeyUpComponent_v4 where
  "KeyUpComponent_v4_new = \<lparr>KeyUpComponent_v4.value = ''''\<rparr>"

definition update :: "string \<Rightarrow> KeyUpComponent_v4 \<Rightarrow> KeyUpComponent_v4" where
  "update v this = this\<lparr>KeyUpComponent_v4.value := v\<rparr>"

fun KeyUpComponent_v4_template ::
  "input_event \<Rightarrow> string \<Rightarrow> KeyUpComponent_v4 \<Rightarrow> KeyUpComponent_v4" where
  "KeyUpComponent_v4_template KeyUpEnter box this = update box this"
| "KeyUpComponent_v4_template (KeyUpOther k) box this = this"
| "KeyUpComponent_v4_template Blur box this = update box this"

subsection \<open>LittleTourComponent\<close>

text \<open>
  \<^verbatim>\<open>
  export class LittleTourComponent {
    heroes = ['Windstorm', 'Bombasto', 'Magneta', 'Tornado'];
    addHero(newHero: string) {
      if (newHero) { this.heroes.push(newHero); }
    }
  }
  \<close>
  A string is falsy exactly when it is the empty string, so the test \<open>if (newHero)\<close>
  is \<open>newHero \<noteq> ''\<close>.  The method does not trim its argument.
\<close>

record LittleTourComponent =
  heroes :: "string list"

definition LittleTourComponent_new :: LittleTourComponent where
  "LittleTourComponent_new =
     \<lparr>heroes = [''Windstorm'', ''Bombasto'', ''Magneta'', ''Tornado'']\<rparr>"

definition addHero :: "string \<Rightarrow> LittleTourComponent \<Rightarrow> LittleTourComponent" where
  "addHero newHero this =
     (if newHero \<noteq> [] then this\<lparr>heroes := heroes this @ [newHero]\<rparr> else this)"

subsection \<open>Trimming, as the specification words it\<close>

text \<open>
  The specification speaks of an input "trimmed of surrounding whitespace".  The source
  has no such step; \<open>trim\<close> below is the specification's notion
  (\<open>String.prototype.trim\<close> on the one-byte white space and line terminator
  characters: tab, line feed, vertical tab, form feed, carriage return, space), stated so
  that it can be compared with the test the code makes.
\<close>

definition is_whitespace :: "char \<Rightarrow> bool" where
  "is_whitespace c = (c \<in> set [CHR 0x09, CHR 0x0A, CHR 0x0B, CHR 0x0C, CHR 0x0D, CHR '' ''])"

definition trim :: "string \<Rightarrow> string" where
  "trim s = rev (dropWhile is_whitespace (rev (dropWhile is_whitespace s)))"

section \<open>Properties\<close>

subsection \<open>Helper facts\<close>

lemma addHero_nonempty: "newHero \<noteq> [] \<Longrightarrow> heroes (addHero newHero this) = heroes this @ [newHero]"
  by (simp add: addHero_def)

lemma addHero_empty: "addHero [] this = this"
  by (simp add: addHero_def)

lemma addHero_fixed_iff: "(addHero newHero this = this) = (newHero = [])"
proof
  assume fixed: "addHero newHero this = this"
  show "newHero = []"
  proof (rule ccontr)
    assume "newHero \<noteq> []"
    then have "heroes (addHero newHero this) = heroes this @ [newHero]"
      by (rule addHero_nonempty)
    with fixed show False by simp
  qed
next
  assume "newHero = []"
  then show "addHero newHero this = this" by (simp add: addHero_empty)
qed

lemma KeyUpComponent_v2_onKey_values:
  "KeyUpComponent_v2.values (KeyUpComponent_v2_onKey v this) =
     KeyUpComponent_v2.values this @ (v @ '' | '')"
  by (simp add: KeyUpComponent_v2_onKey_def)

lemma KeyUpComponent_v1_onKey_Some:
  "target event = Some el \<Longrightarrow>
   KeyUpComponent_v1_onKey event this =
     Inr (this\<lparr>KeyUpComponent_v1.values :=
            KeyUpComponent_v1.values this @ (HTMLInputElement.value el @ '' | '')\<rparr>)"
  by (simp add: KeyUpComponent_v1_onKey_def)

lemma KeyUpComponent_v1_onKey_None:
  "target event = None \<Longrightarrow> KeyUpComponent_v1_onKey event this = Inl TypeError"
  by (simp add: KeyUpComponent_v1_onKey_def)

lemma KeyUpComponent_v1_onKey_InrD:
  assumes "KeyUpComponent_v1_onKey event this = Inr this'"
  shows "\<exists>el. target event = Some el \<and>
           KeyUpComponent_v1.values this' =
             KeyUpComponent_v1.values this @ (HTMLInputElement.value el @ '' | '')"
proof (cases "target event")
  case None
  with assms show ?thesis by (simp add: KeyUpComponent_v1_onKey_None)
next
  case (Some el)
  with assms show ?thesis by (auto simp add: KeyUpComponent_v1_onKey_Some)
qed

lemma addHero_funpow:
  "s \<noteq> [] \<Longrightarrow> heroes ((addHero s ^^ n) this) = heroes this @ replicate n s"
proof (induction n)
  case 0
  show ?case by simp
next
  case (Suc n)
  have "heroes ((addHero s ^^ Suc n) this) = heroes ((addHero s ^^ n) this) @ [s]"
    using Suc.prems by (simp add: addHero_nonempty)
  also have "\<dots> = heroes this @ replicate n s @ [s]"
    using Suc by simp
  also have "replicate n s @ [s] = replicate (Suc n) s"
    by (simp add: replicate_append_same)
  finally show ?case .
qed

subsection \<open>Adding to the list\<close>

text \<open>
  Claim C1.  Calling \<open>addHero\<close> with the empty string leaves the heroes list unchanged.
  Calling it with \<open>Newt\<close> appends \<open>Newt\<close> after all prior entries, in their order; on
  the initial list this yields Windstorm, Bombasto, Magneta, Tornado, Newt.
\<close>

theorem addHero_empty_and_Newt:
  "addHero '''' this = this
   \<and> heroes (addHero ''Newt'' this) = heroes this @ [''Newt'']
   \<and> heroes (addHero ''Newt'' LittleTourComponent_new) =
       [''Windstorm'', ''Bombasto'', ''Magneta'', ''Tornado'', ''Newt'']"
  by (simp add: addHero_def LittleTourComponent_new_def)

text \<open>
  Claim C2, as amended.  \<open>addHero\<close> leaves the component unchanged exactly when its
  argument is the empty string.  The method tests the argument as it is given, without
  trimming, so a string of spaces is not empty and is appended like any other.
\<close>

theorem addHero_unchanged_iff_empty:
  "(addHero s this = this) = (s = '''')"
  by (rule addHero_fixed_iff)

text \<open>
  The claim as first stated fails: three spaces trim to the empty string, yet
  \<open>addHero\<close> appends them to the initial list.
\<close>

theorem addHero_whitespace_counterexample:
  "trim ''   '' = '''' \<and> addHero ''   '' LittleTourComponent_new \<noteq> LittleTourComponent_new"
  by (simp add: trim_def is_whitespace_def addHero_def LittleTourComponent_new_def)

text \<open>
  The amended statement at the empty string and at three spaces.
\<close>

theorem addHero_unchanged_iff_empty_witness:
  "addHero '''' LittleTourComponent_new = LittleTourComponent_new
   \<and> addHero ''   '' LittleTourComponent_new \<noteq> LittleTourComponent_new"
  using addHero_unchanged_iff_empty [of "''''" LittleTourComponent_new]
        addHero_unchanged_iff_empty [of "''   ''" LittleTourComponent_new]
  by simp

text \<open>
  Claim C8.  For a non-empty string \<open>s\<close> and any heroes list, \<open>n\<close> successive calls of
  \<open>addHero\<close> with \<open>s\<close> append exactly \<open>n\<close> copies of \<open>s\<close>: every call adds an entry,
  nothing is deduplicated.
\<close>

theorem addHero_repeated:
  "s \<noteq> '''' \<Longrightarrow>
   heroes ((addHero s ^^ n) this) = heroes this @ replicate n s
   \<and> length (heroes ((addHero s ^^ n) this)) = length (heroes this) + n"
  by (simp add: addHero_funpow)

text \<open>
  Three calls with \<open>Newt\<close> on the initial component.
\<close>

theorem addHero_repeated_witness:
  "''Newt'' \<noteq> ''''
   \<and> heroes (addHero ''Newt'' (addHero ''Newt'' (addHero ''Newt'' LittleTourComponent_new)))
       = [''Windstorm'', ''Bombasto'', ''Magneta'', ''Tornado'', ''Newt'', ''Newt'', ''Newt'']"
proof -
  have ne: "''Newt'' \<noteq> ''''" by simp
  have "heroes ((addHero ''Newt'' ^^ Suc (Suc (Suc 0))) LittleTourComponent_new)
          = heroes LittleTourComponent_new @ replicate (Suc (Suc (Suc 0))) ''Newt''"
    using addHero_repeated [OF ne, of "Suc (Suc (Suc 0))" LittleTourComponent_new] by blast
  then show ?thesis
    by (simp add: LittleTourComponent_new_def)
qed

subsection \<open>Idempotence\<close>

text \<open>
  Claim C3, as amended.  \<open>onClickMe\<close>, \<open>onEnter\<close> and \<open>update\<close> are idempotent: the
  second identical trigger changes nothing.  \<open>addHero\<close> is idempotent exactly for the
  empty string.  \<open>onKey\<close> is not idempotent for any value: in both variants a second
  identical call appends the value and the separator once more.
\<close>

theorem idempotent_handlers:
  "onClickMe (onClickMe c) = onClickMe c
   \<and> onEnter v (onEnter v k3) = onEnter v k3
   \<and> update v (update v k4) = update v k4
   \<and> ((addHero v (addHero v t) = addHero v t) = (v = ''''))
   \<and> KeyUpComponent_v2_onKey v (KeyUpComponent_v2_onKey v k2) \<noteq> KeyUpComponent_v2_onKey v k2
   \<and> (KeyUpComponent_v1_onKey e k1 = Inr k1' \<longrightarrow> KeyUpComponent_v1_onKey e k1' \<noteq> Inr k1')"
proof (intro conjI)
  show "onClickMe (onClickMe c) = onClickMe c"
    by (simp add: onClickMe_def)
  show "onEnter v (onEnter v k3) = onEnter v k3"
    by (simp add: onEnter_def)
  show "update v (update v k4) = update v k4"
    by (simp add: update_def)
  show "(addHero v (addHero v t) = addHero v t) = (v = '''')"
    by (rule addHero_fixed_iff)
  show "KeyUpComponent_v2_onKey v (KeyUpComponent_v2_onKey v k2) \<noteq> KeyUpComponent_v2_onKey v k2"
  proof
    assume "KeyUpComponent_v2_onKey v (KeyUpComponent_v2_onKey v k2) = KeyUpComponent_v2_onKey v k2"
    then have "KeyUpComponent_v2.values (KeyUpComponent_v2_onKey v (KeyUpComponent_v2_onKey v k2))
                 = KeyUpComponent_v2.values (KeyUpComponent_v2_onKey v k2)"
      by simp
    then show False
      by (simp add: KeyUpComponent_v2_onKey_values)
  qed
  show "KeyUpComponent_v1_onKey e k1 = Inr k1' \<longrightarrow> KeyUpComponent_v1_onKey e k1' \<noteq> Inr k1'"
  proof (intro impI notI)
    assume first: "KeyUpComponent_v1_onKey e k1 = Inr k1'"
      and second: "KeyUpComponent_v1_onKey e k1' = Inr k1'"
    from second obtain el :: HTMLInputElement where
      "KeyUpComponent_v1.values k1' =
         KeyUpComponent_v1.values k1' @ (HTMLInputElement.value el @ '' | '')"
      using KeyUpComponent_v1_onKey_InrD by blast
    then show False by simp
  qed
qed

text \<open>
  The claim as first stated fails for the two accumulating handlers: a second
  \<open>onKey\<close> with \<open>a\<close> and a second \<open>addHero\<close> with \<open>Newt\<close> each change the state
  again.
\<close>

theorem idempotence_counterexample:
  "KeyUpComponent_v2_onKey ''a'' (KeyUpComponent_v2_onKey ''a'' KeyUpComponent_v2_new)
     \<noteq> KeyUpComponent_v2_onKey ''a'' KeyUpComponent_v2_new
   \<and> addHero ''Newt'' (addHero ''Newt'' LittleTourComponent_new)
     \<noteq> addHero ''Newt'' LittleTourComponent_new"
  by (simp add: KeyUpComponent_v2_onKey_def KeyUpComponent_v2_new_def addHero_def
      LittleTourComponent_new_def)

text \<open>
  The amended statement on the initial components, with a first \<open>onKey\<close> call of the
  first variant that returns.
\<close>

theorem idempotent_handlers_witness:
  "onClickMe (onClickMe ClickMeComponent_new) = onClickMe ClickMeComponent_new
   \<and> addHero '''' (addHero '''' LittleTourComponent_new) = addHero '''' LittleTourComponent_new
   \<and> KeyUpComponent_v1_onKey (keyup_event ''a'') KeyUpComponent_v1_new
       = Inr \<lparr>KeyUpComponent_v1.values = ''a | ''\<rparr>
   \<and> KeyUpComponent_v1_onKey (keyup_event ''a'') \<lparr>KeyUpComponent_v1.values = ''a | ''\<rparr>
       \<noteq> Inr \<lparr>KeyUpComponent_v1.values = ''a | ''\<rparr>"
proof -
  have run: "KeyUpComponent_v1_onKey (keyup_event ''a'') KeyUpComponent_v1_new
       = Inr \<lparr>KeyUpComponent_v1.values = ''a | ''\<rparr>"
    by (simp add: KeyUpComponent_v1_onKey_def keyup_event_def KeyUpComponent_v1_new_def)
  note inst = idempotent_handlers [of ClickMeComponent_new "''''" _ _ LittleTourComponent_new _
      "keyup_event ''a''" KeyUpComponent_v1_new "\<lparr>KeyUpComponent_v1.values = ''a | ''\<rparr>"]
  from inst run show ?thesis by simp
qed

subsection \<open>The keyup accumulator\<close>

text \<open>
  Claim C4.  Starting from the empty \<open>values\<close> string, the keystrokes that leave the
  box holding \<open>a\<close>, \<open>ab\<close>, \<open>abc\<close> make the accumulator exactly
  \<open>a | ab | abc | \<close>, in the variant that is passed the box content and, call by
  call, in the variant that is passed the event.
\<close>

theorem onKey_a_ab_abc:
  "KeyUpComponent_v2.values
     (KeyUpComponent_v2_onKey ''abc''
       (KeyUpComponent_v2_onKey ''ab''
         (KeyUpComponent_v2_onKey ''a'' KeyUpComponent_v2_new))) = ''a | ab | abc | ''
   \<and> KeyUpComponent_v1_onKey (keyup_event ''a'') KeyUpComponent_v1_new
       = Inr \<lparr>KeyUpComponent_v1.values = ''a | ''\<rparr>
   \<and> KeyUpComponent_v1_onKey (keyup_event ''ab'') \<lparr>KeyUpComponent_v1.values = ''a | ''\<rparr>
       = Inr \<lparr>KeyUpComponent_v1.values = ''a | ab | ''\<rparr>
   \<and> KeyUpComponent_v1_onKey (keyup_event ''abc'') \<lparr>KeyUpComponent_v1.values = ''a | ab | ''\<rparr>
       = Inr \<lparr>KeyUpComponent_v1.values = ''a | ab | abc | ''\<rparr>"
  by (simp add: KeyUpComponent_v2_onKey_def KeyUpComponent_v2_new_def
      KeyUpComponent_v1_onKey_def KeyUpComponent_v1_new_def keyup_event_def)

text \<open>
  Claim C10.  The accumulators are append-only.  A call of \<open>onKey\<close> leaves the old
  \<open>values\<close> string as a prefix of the new one (in the event variant the call returns
  whenever the event has a target, and whenever it returns the prefix property holds);
  a call of \<open>addHero\<close> leaves the old heroes list as a prefix of the new one.  The
  lengths never decrease.
\<close>

theorem accumulators_append_only:
  "(target e = Some el \<longrightarrow>
      (\<exists>k1'. KeyUpComponent_v1_onKey e k1 = Inr k1'
         \<and> prefix (KeyUpComponent_v1.values k1) (KeyUpComponent_v1.values k1')
         \<and> length (KeyUpComponent_v1.values k1) \<le> length (KeyUpComponent_v1.values k1')))
   \<and> (KeyUpComponent_v1_onKey e k1 = Inr k1'' \<longrightarrow>
        prefix (KeyUpComponent_v1.values k1) (KeyUpComponent_v1.values k1''))
   \<and> prefix (KeyUpComponent_v2.values k2) (KeyUpComponent_v2.values (KeyUpComponent_v2_onKey v k2))
   \<and> length (KeyUpComponent_v2.values k2)
       \<le> length (KeyUpComponent_v2.values (KeyUpComponent_v2_onKey v k2))
   \<and> prefix (heroes t) (heroes (addHero h t))
   \<and> length (heroes t) \<le> length (heroes (addHero h t))"
proof (intro conjI impI)
  assume "target e = Some el"
  then show "\<exists>k1'. KeyUpComponent_v1_onKey e k1 = Inr k1'
         \<and> prefix (KeyUpComponent_v1.values k1) (KeyUpComponent_v1.values k1')
         \<and> length (KeyUpComponent_v1.values k1) \<le> length (KeyUpComponent_v1.values k1')"
    by (simp add: KeyUpComponent_v1_onKey_Some)
next
  assume "KeyUpComponent_v1_onKey e k1 = Inr k1''"
  then obtain el' :: HTMLInputElement where
    "KeyUpComponent_v1.values k1'' =
       KeyUpComponent_v1.values k1 @ (HTMLInputElement.value el' @ '' | '')"
    using KeyUpComponent_v1_onKey_InrD by blast
  then show "prefix (KeyUpComponent_v1.values k1) (KeyUpComponent_v1.values k1'')"
    by simp
next
  show "prefix (KeyUpComponent_v2.values k2)
          (KeyUpComponent_v2.values (KeyUpComponent_v2_onKey v k2))"
    by (simp add: KeyUpComponent_v2_onKey_values)
next
  show "length (KeyUpComponent_v2.values k2)
       \<le> length (KeyUpComponent_v2.values (KeyUpComponent_v2_onKey v k2))"
    by (simp add: KeyUpComponent_v2_onKey_values)
next
  show "prefix (heroes t) (heroes (addHero h t))"
    by (simp add: addHero_def)
next
  show "length (heroes t) \<le> length (heroes (addHero h t))"
    by (simp add: addHero_def)
qed

text \<open>
  The statement on a second keystroke of the event variant and on adding \<open>Newt\<close>.
\<close>

theorem accumulators_append_only_witness:
  "target (keyup_event ''ab'') = Some \<lparr>HTMLInputElement.value = ''ab''\<rparr>
   \<and> KeyUpComponent_v1_onKey (keyup_event ''ab'') \<lparr>KeyUpComponent_v1.values = ''a | ''\<rparr>
       = Inr \<lparr>KeyUpComponent_v1.values = ''a | ab | ''\<rparr>
   \<and> prefix ''a | '' ''a | ab | ''
   \<and> prefix (heroes LittleTourComponent_new) (heroes (addHero ''Newt'' LittleTourComponent_new))"
proof -
  have tgt: "target (keyup_event ''ab'') = Some \<lparr>HTMLInputElement.value = ''ab''\<rparr>"
    by (simp add: keyup_event_def)
  have run: "KeyUpComponent_v1_onKey (keyup_event ''ab'') \<lparr>KeyUpComponent_v1.values = ''a | ''\<rparr>
       = Inr \<lparr>KeyUpComponent_v1.values = ''a | ab | ''\<rparr>"
    by (simp add: KeyUpComponent_v1_onKey_def keyup_event_def)
  note inst = accumulators_append_only [of "keyup_event ''ab''" "\<lparr>HTMLInputElement.value = ''ab''\<rparr>"
      "\<lparr>KeyUpComponent_v1.values = ''a | ''\<rparr>" "\<lparr>KeyUpComponent_v1.values = ''a | ab | ''\<rparr>"
      _ _ LittleTourComponent_new "''Newt''"]
  from inst run have "prefix ''a | '' ''a | ab | ''"
    by simp
  moreover from inst have
    "prefix (heroes LittleTourComponent_new) (heroes (addHero ''Newt'' LittleTourComponent_new))"
    by blast
  ultimately show ?thesis using tgt run by simp
qed

subsection \<open>Click, Enter and blur\<close>

text \<open>
  Claim C5.  \<open>onClickMe\<close> takes no argument besides its receiver and sets
  \<open>clickMessage\<close> to the literal \<open>You are my hero!\<close>, whatever the message was before.
\<close>

theorem onClickMe_sets_message:
  "clickMessage (onClickMe this) = ''You are my hero!''"
  by (simp add: onClickMe_def)

text \<open>
  Claim C6.  In the Enter-filtered component a keyup of any key other than the commit
  key, with any box content and from any state, returns normally and leaves the
  component, and so the committed \<open>value\<close>, as it was; so does a blur.  A keyup of
  Enter returns normally with the component that \<open>onEnter\<close> yields on the box content,
  whose \<open>value\<close> is that content, whatever it is: with \<open>X\<close> in the box, \<open>value\<close>
  becomes \<open>X\<close>.  No event raises an error.
\<close>

theorem keyup_enter_filter:
  "KeyUpComponent_v3_template (KeyUpOther k) box this = Inr this
   \<and> KeyUpComponent_v3_template Blur box this = Inr this
   \<and> KeyUpComponent_v3_template KeyUpEnter box this = Inr (onEnter box this)
   \<and> KeyUpComponent_v3.value (onEnter box this) = box
   \<and> KeyUpComponent_v3_template KeyUpEnter box this = Inr \<lparr>KeyUpComponent_v3.value = box\<rparr>
   \<and> KeyUpComponent_v3_template KeyUpEnter ''X'' this = Inr \<lparr>KeyUpComponent_v3.value = ''X''\<rparr>
   \<and> KeyUpComponent_v3_template ev box this \<noteq> Inl err"
proof (intro conjI)
  show "KeyUpComponent_v3_template (KeyUpOther k) box this = Inr this"
    by simp
  show "KeyUpComponent_v3_template Blur box this = Inr this"
    by simp
  show "KeyUpComponent_v3_template KeyUpEnter box this = Inr (onEnter box this)"
    by simp
  show "KeyUpComponent_v3.value (onEnter box this) = box"
    by (simp add: onEnter_def)
  show "KeyUpComponent_v3_template KeyUpEnter box this = Inr \<lparr>KeyUpComponent_v3.value = box\<rparr>"
    by (simp add: onEnter_def)
  show "KeyUpComponent_v3_template KeyUpEnter ''X'' this = Inr \<lparr>KeyUpComponent_v3.value = ''X''\<rparr>"
    by (simp add: onEnter_def)
  show "KeyUpComponent_v3_template ev box this \<noteq> Inl err"
    by (cases ev) simp_all
qed

text \<open>
  Claim C7.  In the blur component, a blur while the box holds \<open>Y\<close> sets \<open>value\<close>
  to \<open>Y\<close> from every state, in particular from the new component, on which Enter
  has never been pressed: losing focus commits the content of the box.
\<close>

theorem blur_commits:
  "KeyUpComponent_v4.value (KeyUpComponent_v4_template Blur box this) = box
   \<and> KeyUpComponent_v4.value (KeyUpComponent_v4_template Blur ''Y'' KeyUpComponent_v4_new) = ''Y''
   \<and> KeyUpComponent_v4.value (update ''Y'' this) = ''Y''"
  by (simp add: update_def)

subsection \<open>Errors\<close>

text \<open>
  Claim C9.  Every handler returns normally on every input it receives, with the state
  its body prescribes: \<open>onClickMe\<close> stores the literal, \<open>onEnter\<close> and \<open>update\<close>
  store their argument, \<open>onKey\<close> of the box-content variant appends its argument and
  the separator.  \<open>onKey\<close> of the event variant is called by the keyup binding of the
  input box with the event of that box, whose target "refers to the input element"; on
  every such event, and on every event that has an element as target, it returns with
  the content and the separator appended.  The only rejection is that of \<open>addHero\<close>:
  the empty string is ignored silently and leaves the component unchanged, and it is the
  only string that does; every other string is appended.
\<close>

theorem handlers_return_normally:
  "clickMessage (onClickMe c) = ''You are my hero!''
   \<and> KeyUpComponent_v1_onKey (keyup_event content) k1 =
        Inr (k1\<lparr>KeyUpComponent_v1.values :=
               KeyUpComponent_v1.values k1 @ (content @ '' | '')\<rparr>)
   \<and> (target e = Some el \<longrightarrow>
        KeyUpComponent_v1_onKey e k1 =
          Inr (k1\<lparr>KeyUpComponent_v1.values :=
                 KeyUpComponent_v1.values k1 @ (HTMLInputElement.value el @ '' | '')\<rparr>))
   \<and> KeyUpComponent_v2.values (KeyUpComponent_v2_onKey v k2) =
        KeyUpComponent_v2.values k2 @ (v @ '' | '')
   \<and> KeyUpComponent_v3.value (onEnter v k3) = v
   \<and> KeyUpComponent_v4.value (update v k4) = v
   \<and> addHero '''' t = t
   \<and> ((addHero h t = t) = (h = ''''))
   \<and> (h \<noteq> '''' \<longrightarrow> heroes (addHero h t) = heroes t @ [h])"
proof (intro conjI impI)
  show "clickMessage (onClickMe c) = ''You are my hero!''"
    by (simp add: onClickMe_def)
next
  have "target (keyup_event content) = Some \<lparr>HTMLInputElement.value = content\<rparr>"
    by (simp add: keyup_event_def)
  then show "KeyUpComponent_v1_onKey (keyup_event content) k1 =
        Inr (k1\<lparr>KeyUpComponent_v1.values :=
               KeyUpComponent_v1.values k1 @ (content @ '' | '')\<rparr>)"
    by (simp add: KeyUpComponent_v1_onKey_Some)
next
  assume "target e = Some el"
  then show "KeyUpComponent_v1_onKey e k1 =
        Inr (k1\<lparr>KeyUpComponent_v1.values :=
               KeyUpComponent_v1.values k1 @ (HTMLInputElement.value el @ '' | '')\<rparr>)"
    by (rule KeyUpComponent_v1_onKey_Some)
next
  show "KeyUpComponent_v2.values (KeyUpComponent_v2_onKey v k2) =
        KeyUpComponent_v2.values k2 @ (v @ '' | '')"
    by (rule KeyUpComponent_v2_onKey_values)
next
  show "KeyUpComponent_v3.value (onEnter v k3) = v"
    by (simp add: onEnter_def)
next
  show "KeyUpComponent_v4.value (update v k4) = v"
    by (simp add: update_def)
next
  show "addHero '''' t = t" by (rule addHero_empty)
next
  show "(addHero h t = t) = (h = '''')" by (rule addHero_fixed_iff)
next
  assume "h \<noteq> ''''"
  then show "heroes (addHero h t) = heroes t @ [h]" by (rule addHero_nonempty)
qed

text \<open>
  The statement on the keyup event of a box holding \<open>a\<close>, and on adding \<open>Newt\<close>.
\<close>

theorem handlers_return_normally_witness:
  "target (keyup_event ''a'') = Some \<lparr>HTMLInputElement.value = ''a''\<rparr>
   \<and> KeyUpComponent_v1_onKey (keyup_event ''a'') KeyUpComponent_v1_new
       = Inr \<lparr>KeyUpComponent_v1.values = ''a | ''\<rparr>
   \<and> ''Newt'' \<noteq> ''''
   \<and> addHero ''Newt'' LittleTourComponent_new \<noteq> LittleTourComponent_new
   \<and> heroes (addHero ''Newt'' LittleTourComponent_new)
       = [''Windstorm'', ''Bombasto'', ''Magneta'', ''Tornado'', ''Newt'']"
proof -
  have tgt: "target (keyup_event ''a'') = Some \<lparr>HTMLInputElement.value = ''a''\<rparr>"
    by (simp add: keyup_event_def)
  note inst = handlers_return_normally [where e = "keyup_event ''a''"
      and el = "\<lparr>HTMLInputElement.value = ''a''\<rparr>" and ?k1.0 = KeyUpComponent_v1_new
      and t = LittleTourComponent_new and h = "''Newt''"]
  from inst tgt have "KeyUpComponent_v1_onKey (keyup_event ''a'') KeyUpComponent_v1_new
       = Inr \<lparr>KeyUpComponent_v1.values = ''a | ''\<rparr>"
    by (simp add: KeyUpComponent_v1_new_def)
  moreover from inst have "addHero ''Newt'' LittleTourComponent_new \<noteq> LittleTourComponent_new"
    by simp
  moreover from inst have "heroes (addHero ''Newt'' LittleTourComponent_new)
       = [''Windstorm'', ''Bombasto'', ''Magneta'', ''Tornado'', ''Newt'']"
    by (simp add: LittleTourComponent_new_def)
  ultimately show ?thesis using tgt by simp
qed

end
